theory Spec2Isabelle
  imports
    Main
    "HOL-Library.Char_ord"
    "HOL-Library.List_Lexorder"
    "HOL-Library.Sublist"
    "HOL-Library.AList"
begin

section \<open>Exceptions raised by the provider client\<close>

text \<open>
  The handlers of \<^verbatim>\<open>openai_api_tester.py\<close> select on the class of the exception
  that a call of the client library raised. The classes are those of the \<^verbatim>\<open>openai\<close>
  package, which all derive from Python's \<^verbatim>\<open>Exception\<close>; \<open>OtherException\<close> stands for
  any class below \<^verbatim>\<open>Exception\<close> outside that package (a transport or parsing error,
  \<^verbatim>\<open>AttributeError\<close>, ...). Signals that are not errors (\<^verbatim>\<open>KeyboardInterrupt\<close>,
  \<^verbatim>\<open>SystemExit\<close>) are not raised by a provider call and are not modelled.
\<close>

datatype exn_class =
    Exception
  | OtherException
  | OpenAIError
  | APIError
  | APIResponseValidationError
  | APIStatusError
  | APIConnectionError
  | APITimeoutError
  | BadRequestError
  | AuthenticationError
  | PermissionDeniedError
  | NotFoundError
  | ConflictError
  | UnprocessableEntityError
  | RateLimitError
  | InternalServerError

text \<open>The method resolution order of each class: the class itself, then its bases.\<close>

fun mro :: "exn_class \<Rightarrow> exn_class list" where
  "mro Exception = [Exception]"
| "mro OtherException = [OtherException, Exception]"
| "mro OpenAIError = [OpenAIError, Exception]"
| "mro APIError = [APIError, OpenAIError, Exception]"
| "mro APIResponseValidationError =
     [APIResponseValidationError, APIError, OpenAIError, Exception]"
| "mro APIStatusError = [APIStatusError, APIError, OpenAIError, Exception]"
| "mro APIConnectionError = [APIConnectionError, APIError, OpenAIError, Exception]"
| "mro APITimeoutError =
     [APITimeoutError, APIConnectionError, APIError, OpenAIError, Exception]"
| "mro BadRequestError =
     [BadRequestError, APIStatusError, APIError, OpenAIError, Exception]"
| "mro AuthenticationError =
     [AuthenticationError, APIStatusError, APIError, OpenAIError, Exception]"
| "mro PermissionDeniedError =
     [PermissionDeniedError, APIStatusError, APIError, OpenAIError, Exception]"
| "mro NotFoundError =
     [NotFoundError, APIStatusError, APIError, OpenAIError, Exception]"
| "mro ConflictError =
     [ConflictError, APIStatusError, APIError, OpenAIError, Exception]"
| "mro UnprocessableEntityError =
     [UnprocessableEntityError, APIStatusError, APIError, OpenAIError, Exception]"
| "mro RateLimitError =
     [RateLimitError, APIStatusError, APIError, OpenAIError, Exception]"
| "mro InternalServerError =
     [InternalServerError, APIStatusError, APIError, OpenAIError, Exception]"

text \<open>An exception object: its class and the text that \<^verbatim>\<open>str(e)\<close> gives.\<close>

datatype exn = Exn (cls: exn_class) (str: string)

text \<open>\<^verbatim>\<open>except C\<close> catches \<open>e\<close> when \<open>C\<close> is in the resolution order of the class of \<open>e\<close>.\<close>

definition isinstance :: "exn \<Rightarrow> exn_class \<Rightarrow> bool" where
  "isinstance e c = List.member (mro (cls e)) c"

section \<open>The provider\<close>

text \<open>
  The three calls the program makes into the client library. Each takes the state of
  the outside world and returns the new one, since an answer may depend on the calls
  made before it (rate limiting); each either raises (\<open>Inl\<close>) or returns (\<open>Inr\<close>).
  \<^item> \<open>OpenAI\<close>: \<^verbatim>\<open>OpenAI(api_key=api_key)\<close>;
  \<^item> \<open>models_list\<close>: \<^verbatim>\<open>client.models.list()\<close>, reduced to the \<^verbatim>\<open>id\<close> of each entry of
    \<^verbatim>\<open>.data\<close>;
  \<^item> \<open>chat_completions_create\<close>: \<^verbatim>\<open>client.chat.completions.create(model=model, ...)\<close>
    with the fixed message, \<^verbatim>\<open>max_tokens=5\<close> and \<^verbatim>\<open>temperature=0\<close>; the response is
    not inspected by the program.
\<close>

record ('c, 'w) provider =
  OpenAI :: "string \<Rightarrow> 'w \<Rightarrow> (exn + 'c) \<times> 'w"
  models_list :: "'c \<Rightarrow> 'w \<Rightarrow> (exn + string list) \<times> 'w"
  chat_completions_create :: "'c \<Rightarrow> string \<Rightarrow> 'w \<Rightarrow> (exn + unit) \<times> 'w"

section \<open>test_single_model\<close>

type_synonym outcome = "bool \<times> string"

definition test_single_model ::
  "('c, 'w) provider \<Rightarrow> 'c \<Rightarrow> string \<Rightarrow> 'w \<Rightarrow> (exn + outcome) \<times> 'w"
where
  "test_single_model P client model w =
     (case chat_completions_create P client model w of
        (Inr response, w') \<Rightarrow> (Inr (True, ''Successfully connected''), w')
      | (Inl e, w') \<Rightarrow>
          (if isinstance e AuthenticationError then
             Inr (False, ''Authentication failed - Invalid API key'')
           else if isinstance e PermissionDeniedError then
             Inr (False, ''Permission denied - No access to this model'')
           else if isinstance e NotFoundError then
             Inr (False, ''Model not found'')
           else if isinstance e RateLimitError then
             Inr (False, ''Rate limit exceeded'')
           else if isinstance e APIError then
             Inr (False, ''API error: '' @ str e)
           else if isinstance e Exception then
             Inr (False, ''Unexpected error: '' @ str e)
           else Inl e,
           w'))"

section \<open>get_available_models\<close>

text \<open>
  \<^verbatim>\<open>str.lower\<close> on the ASCII letters; identifiers are ASCII, any other character is
  left as it is.
\<close>

definition lower_char :: "char \<Rightarrow> char" where
  "lower_char c =
     (case map_of (zip ''ABCDEFGHIJKLMNOPQRSTUVWXYZ'' ''abcdefghijklmnopqrstuvwxyz'') c of
        Some l \<Rightarrow> l
      | None \<Rightarrow> c)"

definition lower :: "string \<Rightarrow> string" where
  "lower s = map lower_char s"

text \<open>Python's \<^verbatim>\<open>sub in s\<close> on strings: \<open>sub\<close> occurs in \<open>s\<close> as a contiguous run.\<close>

fun str_in :: "string \<Rightarrow> string \<Rightarrow> bool" where
  "str_in sub [] = (sub = [])"
| "str_in sub (c # cs) = (prefix sub (c # cs) \<or> str_in sub cs)"

definition is_gpt_model :: "string \<Rightarrow> bool" where
  "is_gpt_model model_id =
     (str_in ''gpt'' (lower model_id) \<and>
      list_ex (\<lambda>variant. str_in variant model_id) [''gpt-4'', ''gpt-3.5-turbo''])"

definition get_available_models ::
  "('c, 'w) provider \<Rightarrow> 'c \<Rightarrow> 'w \<Rightarrow> (exn + string list) \<times> 'w"
where
  "get_available_models P client w =
     (case models_list P client w of
        (Inr models, w') \<Rightarrow> (Inr (sort (filter is_gpt_model models)), w')
      | (Inl e, w') \<Rightarrow>
          (if isinstance e Exception then Inr [] else Inl e, w'))"

section \<open>test_api_key\<close>

definition default_models :: "string list" where
  "default_models =
     [''gpt-4o'', ''gpt-4o-mini'', ''gpt-4'', ''gpt-4-turbo'', ''gpt-4-32k'',
      ''gpt-3.5-turbo'', ''gpt-3.5-turbo-16k'']"

text \<open>
  The \<^verbatim>\<open>results\<close> dictionary, in insertion order: \<^verbatim>\<open>results[model] = v\<close> replaces the
  value of a key that is present and appends a new key at the end, which is
  \<^const>\<open>AList.update\<close>.
\<close>

type_synonym results = "(string \<times> outcome) list"

text \<open>
  The \<^verbatim>\<open>for model in models_to_test\<close> loop. It stops at the first exception that
  \<^const>\<open>test_single_model\<close> lets through, with the entries written so far. The pause
  \<^verbatim>\<open>time.sleep(0.1)\<close> has no effect on the values.
\<close>

fun probe_loop ::
  "('c, 'w) provider \<Rightarrow> 'c \<Rightarrow> string list \<Rightarrow> results \<Rightarrow> 'w \<Rightarrow> (exn option \<times> results) \<times> 'w"
where
  "probe_loop P client [] results w = ((None, results), w)"
| "probe_loop P client (model # models) results w =
     (case test_single_model P client model w of
        (Inl e, w') \<Rightarrow> ((Some e, results), w')
      | (Inr sm, w') \<Rightarrow> probe_loop P client models (AList.update model sm results) w')"

text \<open>
  The body of the \<^verbatim>\<open>try\<close> block, started with \<^verbatim>\<open>results = {}\<close>: the exception it raised,
  if any, and \<^verbatim>\<open>results\<close> as the handlers find it.
  \<^verbatim>\<open>list(set(default_models + available_models))\<close> followed by \<^verbatim>\<open>.sort()\<close> is the
  sorted list of the distinct elements, whatever order the set is iterated in.
\<close>

definition try_body ::
  "('c, 'w) provider \<Rightarrow> string \<Rightarrow> 'w \<Rightarrow> (exn option \<times> results) \<times> 'w"
where
  "try_body P api_key w =
     (case OpenAI P api_key w of
        (Inl e, w1) \<Rightarrow> ((Some e, []), w1)
      | (Inr client, w1) \<Rightarrow>
          (case get_available_models P client w1 of
             (Inl e, w2) \<Rightarrow> ((Some e, []), w2)
           | (Inr available_models, w2) \<Rightarrow>
               probe_loop P client
                 (sort (remdups (default_models @ available_models))) [] w2))"

text \<open>The loop of both handlers: \<^verbatim>\<open>for model in default_models: results[model] = v\<close>.\<close>

definition mark_defaults :: "outcome \<Rightarrow> results \<Rightarrow> results" where
  "mark_defaults v results = fold (\<lambda>model r. AList.update model v r) default_models results"

definition test_api_key ::
  "('c, 'w) provider \<Rightarrow> string \<Rightarrow> 'w \<Rightarrow> (exn + results) \<times> 'w"
where
  "test_api_key P api_key w =
     (case try_body P api_key w of
        ((None, results), w') \<Rightarrow> (Inr results, w')
      | ((Some e, results), w') \<Rightarrow>
          (if isinstance e AuthenticationError then
             Inr (mark_defaults (False, ''Invalid API key'') results)
           else if isinstance e Exception then
             Inr (mark_defaults (False, ''Client error: '' @ str e) results)
           else Inl e,
           w'))"

section \<open>The final summary of the page\<close>

text \<open>
  The three messages of the last \<^verbatim>\<open>if\<close>/\<^verbatim>\<open>elif\<close>/\<^verbatim>\<open>else\<close> of the script:
  \<open>Valid\<close> for "API Key is valid", \<open>PartiallyValid\<close> for "API Key is partially valid",
  \<open>KeyFailed\<close> for "API Key failed".
\<close>

datatype summary = Valid | PartiallyValid | KeyFailed

definition final_summary :: "int \<Rightarrow> int \<Rightarrow> summary" where
  "final_summary successes total_n =
     (if successes = total_n then Valid
      else if successes > 0 then PartiallyValid
      else KeyFailed)"

text \<open>
  \<^verbatim>\<open>successes = sum(1 for success, _ in results.values() if success)\<close> and
  \<^verbatim>\<open>total = len(results)\<close>.
\<close>

definition successes_of :: "results \<Rightarrow> int" where
  "successes_of results = int (length (filter (\<lambda>(success, message). success) (map snd results)))"

definition total_of :: "results \<Rightarrow> int" where
  "total_of results = int (length results)"

section \<open>The outcome table of the specification\<close>

text \<open>
  The error categories of the specification's outcome table, chosen from the provider's
  answer by the stated precedence (authentication, permission, not found, rate limit,
  generic API error, unexpected error), and the outcome the table gives each category.
  These follow the specification's words and are compared with \<^const>\<open>test_single_model\<close>.
\<close>

datatype category =
    Completed
  | AuthenticationRejected
  | PermissionDenied
  | ModelUnknown
  | RateLimited
  | ProviderApiError
  | UnexpectedFailure

definition spec_category :: "exn + unit \<Rightarrow> category" where
  "spec_category r =
     (case r of
        Inr response \<Rightarrow> Completed
      | Inl e \<Rightarrow>
          (if isinstance e AuthenticationError then AuthenticationRejected
           else if isinstance e PermissionDeniedError then PermissionDenied
           else if isinstance e NotFoundError then ModelUnknown
           else if isinstance e RateLimitError then RateLimited
           else if isinstance e APIError then ProviderApiError
           else UnexpectedFailure))"



text \<open>
  The filter of the dynamic list as the specification words it: the identifier contains
  one of the two family markers as a case-insensitive substring.
\<close>

definition spec_family_member :: "string \<Rightarrow> bool" where
  "spec_family_member model_id =
     list_ex (\<lambda>marker. str_in marker (lower model_id)) [''gpt-4'', ''gpt-3.5-turbo'']"

text \<open>The success flag of an entry agrees with its message.\<close>

definition flag_matches_message :: "string \<times> outcome \<Rightarrow> bool" where
  "flag_matches_message kv = (fst (snd kv) \<longleftrightarrow> snd (snd kv) = ''Successfully connected'')"

section \<open>A provider for the scenarios of the specification\<close>

text \<open>
  The world is the list of the models probed so far, oldest first. The credential
  \<open>''badkey''\<close> fails construction with an authentication error, the empty credential
  with another error, any other one gives a client. The probe of \<open>''gpt-4''\<close> is denied,
  every other probe completes. The answer of the enumeration is a parameter.
\<close>

definition scenario_provider :: "exn + string list \<Rightarrow> (unit, string list) provider" where
  "scenario_provider listing =
     \<lparr> OpenAI = (\<lambda>api_key w.
          if api_key = ''badkey'' then
            (Inl (Exn AuthenticationError ''Incorrect API key provided''), w)
          else if api_key = [] then
            (Inl (Exn OpenAIError ''The api_key client option must be set''), w)
          else (Inr (), w)),
       models_list = (\<lambda>client w. (listing, w)),
       chat_completions_create = (\<lambda>client model w.
          (if model = ''gpt-4'' then Inl (Exn PermissionDeniedError ''Error code: 403'')
           else Inr (),
           w @ [model])) \<rparr>"


section \<open>Auxiliary facts\<close>

lemma isinstance_Exception: "isinstance e Exception"
  by (cases e; cases "cls e") (simp_all add: isinstance_def)

lemma update_fresh: "k \<notin> fst ` set al \<Longrightarrow> AList.update k v al = al @ [(k, v)]"
  by (induction al) auto

lemma set_update_subset: "set (AList.update k v al) \<subseteq> insert (k, v) (set al)"
  by (induction al) auto

lemma test_single_model_returns:
  "\<exists>sm. fst (test_single_model P client model w) = Inr sm"
  by (auto simp: test_single_model_def isinstance_Exception split: prod.splits sum.splits)

lemma test_single_model_world:
  "snd (test_single_model P client model w) = snd (chat_completions_create P client model w)"
  by (simp add: test_single_model_def split: prod.splits sum.splits)

lemma probe_loop_no_exn: "fst (fst (probe_loop P client models results w)) = None"
proof (induction models arbitrary: results w)
  case Nil
  show ?case by simp
next
  case (Cons m ms)
  obtain r w' where tm: "test_single_model P client m w = (r, w')" by (cases "test_single_model P client m w")
  from test_single_model_returns [of P client m w] tm obtain sm where "r = Inr sm" by auto
  with tm Cons show ?case by simp
qed

lemma probe_loop_world:
  "snd (probe_loop P client models results w) =
   fold (\<lambda>model w. snd (chat_completions_create P client model w)) models w"
proof (induction models arbitrary: results w)
  case Nil
  show ?case by simp
next
  case (Cons m ms)
  obtain r w' where tm: "test_single_model P client m w = (r, w')" by (cases "test_single_model P client m w")
  from test_single_model_returns [of P client m w] tm obtain sm where r: "r = Inr sm" by auto
  from test_single_model_world [of P client m w] tm have "w' = snd (chat_completions_create P client m w)" by simp
  with tm r Cons show ?case by simp
qed

lemma probe_loop_keys:
  "distinct models \<Longrightarrow> set models \<inter> fst ` set results = {} \<Longrightarrow>
   map fst (snd (fst (probe_loop P client models results w))) = map fst results @ models"
proof (induction models arbitrary: results w)
  case Nil
  show ?case by simp
next
  case (Cons m ms)
  obtain r w' where tm: "test_single_model P client m w = (r, w')" by (cases "test_single_model P client m w")
  from test_single_model_returns [of P client m w] tm obtain sm where r: "r = Inr sm" by auto
  from Cons.prems have fresh: "m \<notin> fst ` set results" by auto
  have upd: "AList.update m sm results = results @ [(m, sm)]" using fresh by (rule update_fresh)
  have "map fst (snd (fst (probe_loop P client ms (results @ [(m, sm)]) w'))) = map fst (results @ [(m, sm)]) @ ms"
    using Cons.prems by (intro Cons.IH) auto
  with tm r upd show ?case by simp
qed

lemma probe_loop_entries:
  assumes step: "\<And>model w sm. fst (test_single_model P client model w) = Inr sm \<Longrightarrow> Q (model, sm)"
    and init: "\<forall>kv \<in> set results. Q kv"
  shows "\<forall>kv \<in> set (snd (fst (probe_loop P client models results w))). Q kv"
  using init
proof (induction models arbitrary: results w)
  case Nil
  then show ?case by simp
next
  case (Cons m ms)
  obtain r w' where tm: "test_single_model P client m w = (r, w')" by (cases "test_single_model P client m w")
  from test_single_model_returns [of P client m w] tm obtain sm where r: "r = Inr sm" by auto
  from step [of m w sm] tm r have "Q (m, sm)" by simp
  with Cons.prems set_update_subset [of m sm results]
  have "\<forall>kv \<in> set (AList.update m sm results). Q kv" by auto
  then have "\<forall>kv \<in> set (snd (fst (probe_loop P client ms (AList.update m sm results) w'))). Q kv"
    by (rule Cons.IH)
  with tm r show ?case by simp
qed

lemma get_available_models_returns:
  "\<exists>ms. fst (get_available_models P client w) = Inr ms"
  by (simp add: get_available_models_def isinstance_Exception split: prod.splits sum.splits)

lemma mark_defaults_empty:
  "mark_defaults v [] = map (\<lambda>model. (model, v)) default_models"
  by (simp add: mark_defaults_def default_models_def)

lemma test_single_model_flag:
  "fst (test_single_model P client model w) = Inr sm \<Longrightarrow> flag_matches_message (model, sm)"
  by (auto simp: test_single_model_def flag_matches_message_def split: prod.splits sum.splits if_splits)

lemma handler_authentication:
  assumes "OpenAI P api_key w = (Inl e, w1)" and "isinstance e AuthenticationError"
  shows "test_api_key P api_key w =
           (Inr (map (\<lambda>model. (model, False, ''Invalid API key'')) default_models), w1)"
  using assms by (simp add: test_api_key_def try_body_def mark_defaults_empty)

lemma handler_general_error:
  assumes "OpenAI P api_key w = (Inl e, w1)" and "\<not> isinstance e AuthenticationError"
  shows "test_api_key P api_key w =
           (Inr (map (\<lambda>model. (model, False, ''Client error: '' @ str e)) default_models), w1)"
  using assms by (simp add: test_api_key_def try_body_def mark_defaults_empty isinstance_Exception)

lemma no_handler_when_client_built:
  assumes "OpenAI P api_key w = (Inr client, w1)"
    and "get_available_models P client w1 = (Inr available_models, w2)"
  shows "test_api_key P api_key w =
           (Inr (snd (fst (probe_loop P client (sort (remdups (default_models @ available_models))) [] w2))),
            snd (probe_loop P client (sort (remdups (default_models @ available_models))) [] w2))"
proof -
  let ?L = "probe_loop P client (sort (remdups (default_models @ available_models))) [] w2"
  obtain x r w3 where L: "?L = ((x, r), w3)" by (cases ?L) auto
  from probe_loop_no_exn [of P client "sort (remdups (default_models @ available_models))" "[]" w2] L
  have "x = None" by simp
  with L assms show ?thesis by (simp add: test_api_key_def try_body_def)
qed

lemma construction_cases:
  obtains (auth) e w1 where "OpenAI P api_key w = (Inl e, w1)" "isinstance e AuthenticationError"
  | (other) e w1 where "OpenAI P api_key w = (Inl e, w1)" "\<not> isinstance e AuthenticationError"
  | (probing) client w1 available_models w2 where "OpenAI P api_key w = (Inr client, w1)"
      "get_available_models P client w1 = (Inr available_models, w2)"
proof (cases "OpenAI P api_key w")
  case (Pair r w1)
  show ?thesis
  proof (cases r)
    case (Inl e)
    with Pair auth other show ?thesis by (cases "isinstance e AuthenticationError") auto
  next
    case (Inr client)
    obtain g w2 where g: "get_available_models P client w1 = (g, w2)"
      by (cases "get_available_models P client w1")
    with get_available_models_returns [of P client w1] obtain ms where "g = Inr ms" by auto
    with g Pair Inr probing show ?thesis by auto
  qed
qed


lemma category_by_class:
  "spec_category (Inl (Exn c d)) =
     (case c of
        AuthenticationError \<Rightarrow> AuthenticationRejected
      | PermissionDeniedError \<Rightarrow> PermissionDenied
      | NotFoundError \<Rightarrow> ModelUnknown
      | RateLimitError \<Rightarrow> RateLimited
      | Exception \<Rightarrow> UnexpectedFailure
      | OtherException \<Rightarrow> UnexpectedFailure
      | OpenAIError \<Rightarrow> UnexpectedFailure
      | _ \<Rightarrow> ProviderApiError)"
  by (cases c) (simp_all add: spec_category_def isinstance_def)

lemma str_in_sublist: "str_in sub s = sublist sub s"
  by (induction s) (simp_all add: sublist_Cons_right)

lemma sublist_map_left: "sublist xs ys \<Longrightarrow> sublist (map f xs) (map f ys)"
  unfolding sublist_def by (metis map_append)

lemma lower_gpt: "lower ''gpt'' = ''gpt''"
  by (simp add: lower_def lower_char_def)

lemma variant_has_gpt:
  assumes "sublist v model_id" and "sublist ''gpt'' v"
  shows "str_in ''gpt'' (lower model_id)"
proof -
  from assms have "sublist ''gpt'' model_id" by (rule sublist_order.order.trans [rotated])
  then have "sublist (lower ''gpt'') (lower model_id)"
    unfolding lower_def by (rule sublist_map_left)
  then show ?thesis by (simp add: lower_gpt str_in_sublist)
qed

lemma is_gpt_model_case_sensitive:
  "is_gpt_model model_id \<longleftrightarrow> sublist ''gpt-4'' model_id \<or> sublist ''gpt-3.5-turbo'' model_id"
proof -
  have a: "sublist ''gpt'' ''gpt-4''" by (rule prefix_imp_sublist) simp
  have b: "sublist ''gpt'' ''gpt-3.5-turbo''" by (rule prefix_imp_sublist) simp
  show ?thesis
    using variant_has_gpt [OF _ a, of model_id] variant_has_gpt [OF _ b, of model_id]
    by (auto simp: is_gpt_model_def str_in_sublist)
qed

lemma successes_within_total:
  "0 \<le> successes_of results \<and> successes_of results \<le> total_of results"
  by (simp add: successes_of_def total_of_def le_trans [OF length_filter_le])

lemma total_positive: "results \<noteq> [] \<Longrightarrow> 0 < total_of results"
  by (simp add: total_of_def)

lemma sorted_default_models:
  "sort (remdups default_models) =
     [''gpt-3.5-turbo'', ''gpt-3.5-turbo-16k'', ''gpt-4'', ''gpt-4-32k'', ''gpt-4-turbo'',
      ''gpt-4o'', ''gpt-4o-mini'']"
  by code_simp

lemma models_to_test_props:
  "set (sort (remdups (default_models @ available_models))) = set default_models \<union> set available_models"
  "sorted (sort (remdups (default_models @ available_models)))"
  "distinct (sort (remdups (default_models @ available_models)))"
  by simp_all

lemma run_with_client:
  assumes c: "OpenAI P api_key w = (Inr client, w1)"
    and g: "get_available_models P client w1 = (Inr available_models, w2)"
  shows "\<exists>results w3.
     test_api_key P api_key w = (Inr results, w3) \<and>
     map fst results = sort (remdups (default_models @ available_models)) \<and>
     (\<forall>(model, sm) \<in> set results. \<exists>w'. fst (test_single_model P client model w') = Inr sm) \<and>
     w3 = fold (\<lambda>model w'. snd (chat_completions_create P client model w')) (map fst results) w2"
proof -
  let ?ms = "sort (remdups (default_models @ available_models))"
  let ?L = "probe_loop P client ?ms [] w2"
  have run: "test_api_key P api_key w = (Inr (snd (fst ?L)), snd ?L)"
    using c g by (rule no_handler_when_client_built)
  have keys: "map fst (snd (fst ?L)) = ?ms"
    using probe_loop_keys [of ?ms "[]" P client w2] by simp
  have "\<forall>kv \<in> set (snd (fst ?L)). \<exists>w'. fst (test_single_model P client (fst kv) w') = Inr (snd kv)"
    by (rule probe_loop_entries) auto
  then have entries: "\<forall>(model, sm) \<in> set (snd (fst ?L)).
      \<exists>w'. fst (test_single_model P client model w') = Inr sm"
    by fastforce
  have world: "snd ?L = fold (\<lambda>model w'. snd (chat_completions_create P client model w')) ?ms w2"
    by (rule probe_loop_world)
  from run keys entries world show ?thesis by simp
qed

lemma scenario_run:
  "test_api_key (scenario_provider (Inr [''gpt-4.1'', ''whisper-1'', ''gpt-4o'', ''GPT-4'']))
     ''sk-valid123'' [] =
(Inr [(''gpt-3.5-turbo'', True, ''Successfully connected''),
       (''gpt-3.5-turbo-16k'', True, ''Successfully connected''),
       (''gpt-4'', False, ''Permission denied - No access to this model''),
       (''gpt-4-32k'', True, ''Successfully connected''),
       (''gpt-4-turbo'', True, ''Successfully connected''),
       (''gpt-4.1'', True, ''Successfully connected''),
       (''gpt-4o'', True, ''Successfully connected''),
       (''gpt-4o-mini'', True, ''Successfully connected'')],
  [''gpt-3.5-turbo'', ''gpt-3.5-turbo-16k'', ''gpt-4'', ''gpt-4-32k'',
   ''gpt-4-turbo'', ''gpt-4.1'', ''gpt-4o'', ''gpt-4o-mini''])"
  by code_simp

lemma scenario_client:
  "OpenAI (scenario_provider listing) ''sk-valid123'' [] = (Inr (), [])"
  by (simp add: scenario_provider_def)

lemma scenario_listing:
  "get_available_models (scenario_provider (Inr [''gpt-4.1'', ''whisper-1'', ''gpt-4o'', ''GPT-4''])) () [] =
     (Inr [''gpt-4.1'', ''gpt-4o''], [])"
  by code_simp

section \<open>The single-model probe\<close>



section \<open>The run with a client\<close>

text \<open>
  C2. When the construction of the client succeeds, \<^const>\<open>test_api_key\<close> returns a
  result whose keys are the default models together with the filtered enumerated
  models, in ascending lexicographic order and each exactly once; every entry holds
  the outcome of a probe of its key; and the provider has seen exactly the probes of
  these keys, in that order, after the enumeration.
\<close>

theorem test_api_key_sorted_union:
  assumes "OpenAI P api_key w = (Inr client, w1)"
  shows "\<exists>available_models w2 results w3.
     get_available_models P client w1 = (Inr available_models, w2) \<and>
     test_api_key P api_key w = (Inr results, w3) \<and>
     set (map fst results) = set default_models \<union> set available_models \<and>
     sorted (map fst results) \<and> distinct (map fst results) \<and>
     (\<forall>(model, sm) \<in> set results. \<exists>w'. fst (test_single_model P client model w') = Inr sm) \<and>
     w3 = fold (\<lambda>model w'. snd (chat_completions_create P client model w')) (map fst results) w2"
proof -
  obtain r w2 where g: "get_available_models P client w1 = (r, w2)"
    by (cases "get_available_models P client w1")
  with get_available_models_returns [of P client w1] obtain available_models
    where r: "r = Inr available_models" by auto
  from run_with_client [OF assms g [unfolded r]] obtain results w3 where
    run: "test_api_key P api_key w = (Inr results, w3)" and
    keys: "map fst results = sort (remdups (default_models @ available_models))" and
    entries: "\<forall>(model, sm) \<in> set results. \<exists>w'. fst (test_single_model P client model w') = Inr sm" and
    world: "w3 = fold (\<lambda>model w'. snd (chat_completions_create P client model w')) (map fst results) w2"
    by blast
  from keys have "set (map fst results) = set default_models \<union> set available_models"
    and "sorted (map fst results)" and "distinct (map fst results)"
    by (simp_all only: models_to_test_props)
  with g r run entries world show ?thesis by blast
qed

theorem test_api_key_sorted_union_witness:
  "OpenAI (scenario_provider (Inr [''gpt-4.1'', ''whisper-1'', ''gpt-4o'', ''GPT-4''])) ''sk-valid123'' [] = (Inr (), []) \<and>
   (\<exists>results.
      test_api_key (scenario_provider (Inr [''gpt-4.1'', ''whisper-1'', ''gpt-4o'', ''GPT-4''])) ''sk-valid123'' [] =
        (Inr results,
         [''gpt-3.5-turbo'', ''gpt-3.5-turbo-16k'', ''gpt-4'', ''gpt-4-32k'', ''gpt-4-turbo'',
          ''gpt-4.1'', ''gpt-4o'', ''gpt-4o-mini'']) \<and>
      set (map fst results) = set default_models \<union> {''gpt-4.1'', ''gpt-4o''} \<and>
      sorted (map fst results) \<and> distinct (map fst results))"
proof -
  let ?P = "scenario_provider (Inr [''gpt-4.1'', ''whisper-1'', ''gpt-4o'', ''GPT-4''])"
  have h: "OpenAI ?P ''sk-valid123'' [] = (Inr (), [])" by (rule scenario_client)
  from test_api_key_sorted_union [OF h] obtain available_models w2 results w3 where
    g: "get_available_models ?P () [] = (Inr available_models, w2)" and
    run: "test_api_key ?P ''sk-valid123'' [] = (Inr results, w3)" and
    props: "set (map fst results) = set default_models \<union> set available_models"
      "sorted (map fst results)" "distinct (map fst results)"
    by blast
  from g have "available_models = [''gpt-4.1'', ''gpt-4o'']" by (simp add: scenario_listing)
  moreover from run have "w3 = [''gpt-3.5-turbo'', ''gpt-3.5-turbo-16k'', ''gpt-4'', ''gpt-4-32k'', ''gpt-4-turbo'',
          ''gpt-4.1'', ''gpt-4o'', ''gpt-4o-mini'']" by (simp add: scenario_run)
  ultimately show ?thesis using h run props by auto
qed

section \<open>Failure of the construction: authentication\<close>

text \<open>
  C3. When the construction of the client raises an authentication error, the result
  has exactly the seven default models as keys, each with
  \<open>(False, ''Invalid API key'')\<close>, and the world is the one the construction left: no
  enumeration and no probe took place.
\<close>

theorem test_api_key_invalid_key:
  assumes "OpenAI P api_key w = (Inl e, w1)" and "isinstance e AuthenticationError"
  shows "test_api_key P api_key w =
           (Inr [(''gpt-4o'', False, ''Invalid API key''),
                 (''gpt-4o-mini'', False, ''Invalid API key''),
                 (''gpt-4'', False, ''Invalid API key''),
                 (''gpt-4-turbo'', False, ''Invalid API key''),
                 (''gpt-4-32k'', False, ''Invalid API key''),
                 (''gpt-3.5-turbo'', False, ''Invalid API key''),
                 (''gpt-3.5-turbo-16k'', False, ''Invalid API key'')], w1) \<and>
         map fst (projr (fst (test_api_key P api_key w))) = default_models \<and>
         length (projr (fst (test_api_key P api_key w))) = 7"
  using handler_authentication [OF assms] by (simp add: default_models_def)

theorem test_api_key_invalid_key_witness:
  "OpenAI (scenario_provider (Inr [''gpt-4.1''])) ''badkey'' [] =
     (Inl (Exn AuthenticationError ''Incorrect API key provided''), []) \<and>
   isinstance (Exn AuthenticationError ''Incorrect API key provided'') AuthenticationError \<and>
   map snd (projr (fst (test_api_key (scenario_provider (Inr [''gpt-4.1''])) ''badkey'' []))) =
     replicate 7 (False, ''Invalid API key'') \<and>
   snd (test_api_key (scenario_provider (Inr [''gpt-4.1''])) ''badkey'' []) = []"
proof -
  have h1: "OpenAI (scenario_provider (Inr [''gpt-4.1''])) ''badkey'' [] =
     (Inl (Exn AuthenticationError ''Incorrect API key provided''), [])"
    by (simp add: scenario_provider_def)
  have h2: "isinstance (Exn AuthenticationError ''Incorrect API key provided'') AuthenticationError"
    by (simp add: isinstance_def)
  from test_api_key_invalid_key [OF h1 h2] h1 h2 show ?thesis
    by (simp add: numeral_eq_Suc)
qed

section \<open>The filter of the enumerated models\<close>

text \<open>
  C4. The specification keeps the identifiers that contain \<open>gpt-4\<close> or
  \<open>gpt-3.5-turbo\<close> as a case-insensitive substring. The code lowers the identifier
  only for the test on \<open>gpt\<close> and looks for the two markers in the identifier as it
  is (lemma \<open>is_gpt_model_case_sensitive\<close>): the identifier \<open>GPT-4\<close> contains the marker
  \<open>gpt-4\<close> case-insensitively, and the code drops it from the dynamic list.
\<close>

theorem is_gpt_model_rejects_uppercase:
  "spec_family_member ''GPT-4'' \<and> \<not> is_gpt_model ''GPT-4'' \<and>
   get_available_models (scenario_provider (Inr [''GPT-4''])) () [] = (Inr [], [])"
  by (simp add: spec_family_member_def is_gpt_model_def get_available_models_def
      scenario_provider_def lower_def lower_char_def)

section \<open>Failure of the construction: any other error\<close>

text \<open>
  C5. When the construction of the client raises an error that is not an
  authentication error, with detail \<open>str e\<close>, the result has exactly the default models
  as keys, each with \<open>(False, ''Client error: '' @ str e)\<close>.
\<close>

theorem test_api_key_client_error_all_defaults:
  assumes "OpenAI P api_key w = (Inl e, w1)" and "\<not> isinstance e AuthenticationError"
  shows "test_api_key P api_key w =
           (Inr [(''gpt-4o'', False, ''Client error: '' @ str e),
                 (''gpt-4o-mini'', False, ''Client error: '' @ str e),
                 (''gpt-4'', False, ''Client error: '' @ str e),
                 (''gpt-4-turbo'', False, ''Client error: '' @ str e),
                 (''gpt-4-32k'', False, ''Client error: '' @ str e),
                 (''gpt-3.5-turbo'', False, ''Client error: '' @ str e),
                 (''gpt-3.5-turbo-16k'', False, ''Client error: '' @ str e)], w1) \<and>
         map fst (projr (fst (test_api_key P api_key w))) = default_models"
  using handler_general_error [OF assms] by (simp add: default_models_def)

theorem test_api_key_client_error_all_defaults_witness:
  "OpenAI (scenario_provider (Inr [''gpt-4.1''])) [] [] =
     (Inl (Exn OpenAIError ''The api_key client option must be set''), []) \<and>
   \<not> isinstance (Exn OpenAIError ''The api_key client option must be set'') AuthenticationError \<and>
   map snd (projr (fst (test_api_key (scenario_provider (Inr [''gpt-4.1''])) [] []))) =
     replicate 7 (False, ''Client error: The api_key client option must be set'')"
proof -
  have h1: "OpenAI (scenario_provider (Inr [''gpt-4.1''])) [] [] =
     (Inl (Exn OpenAIError ''The api_key client option must be set''), [])"
    by (simp add: scenario_provider_def)
  have h2: "\<not> isinstance (Exn OpenAIError ''The api_key client option must be set'') AuthenticationError"
    by (simp add: isinstance_def)
  from test_api_key_client_error_all_defaults [OF h1 h2] h1 h2 show ?thesis
    by (simp add: numeral_eq_Suc)
qed

section \<open>Failure of the enumeration\<close>

text \<open>
  C6. When the client is built and the enumeration raises, whatever the error,
  \<^const>\<open>get_available_models\<close> returns the empty list, and the run goes on:
  \<^const>\<open>test_api_key\<close> returns a result whose keys are the seven default models in
  sorted order, every entry being the outcome of a probe, the provider having seen
  those seven probes.
\<close>

theorem enumeration_failure_is_silent:
  assumes "OpenAI P api_key w = (Inr client, w1)" and "models_list P client w1 = (Inl e, w2)"
  shows "get_available_models P client w1 = (Inr [], w2) \<and>
         (\<exists>results w3.
            test_api_key P api_key w = (Inr results, w3) \<and>
            map fst results =
              [''gpt-3.5-turbo'', ''gpt-3.5-turbo-16k'', ''gpt-4'', ''gpt-4-32k'', ''gpt-4-turbo'',
               ''gpt-4o'', ''gpt-4o-mini''] \<and>
            set default_models \<subseteq> set (map fst results) \<and>
            (\<forall>(model, sm) \<in> set results. \<exists>w'. fst (test_single_model P client model w') = Inr sm) \<and>
            w3 = fold (\<lambda>model w'. snd (chat_completions_create P client model w')) (map fst results) w2)"
proof -
  have g: "get_available_models P client w1 = (Inr [], w2)"
    using assms(2) by (simp add: get_available_models_def isinstance_Exception)
  from run_with_client [OF assms(1) g] obtain results w3 where
    run: "test_api_key P api_key w = (Inr results, w3)" and
    keys: "map fst results = sort (remdups (default_models @ []))" and
    entries: "\<forall>(model, sm) \<in> set results. \<exists>w'. fst (test_single_model P client model w') = Inr sm" and
    world: "w3 = fold (\<lambda>model w'. snd (chat_completions_create P client model w')) (map fst results) w2"
    by blast
  from keys have k: "map fst results =
      [''gpt-3.5-turbo'', ''gpt-3.5-turbo-16k'', ''gpt-4'', ''gpt-4-32k'', ''gpt-4-turbo'',
       ''gpt-4o'', ''gpt-4o-mini'']"
    by (simp add: sorted_default_models)
  from keys have "set (map fst results) = set default_models" by simp
  then have sub: "set default_models \<subseteq> set (map fst results)" by simp
  show ?thesis
  proof (intro conjI exI)
    show "get_available_models P client w1 = (Inr [], w2)" by (rule g)
    show "test_api_key P api_key w = (Inr results, w3)" by (rule run)
    show "map fst results =
      [''gpt-3.5-turbo'', ''gpt-3.5-turbo-16k'', ''gpt-4'', ''gpt-4-32k'', ''gpt-4-turbo'',
       ''gpt-4o'', ''gpt-4o-mini'']" by (rule k)
    show "set default_models \<subseteq> set (map fst results)" by (rule sub)
    show "\<forall>(model, sm) \<in> set results. \<exists>w'. fst (test_single_model P client model w') = Inr sm"
      by (rule entries)
    show "w3 = fold (\<lambda>model w'. snd (chat_completions_create P client model w')) (map fst results) w2"
      by (rule world)
  qed
qed

theorem enumeration_failure_is_silent_witness:
  "OpenAI (scenario_provider (Inl (Exn APIConnectionError ''Connection error.''))) ''sk-valid123'' [] =
     (Inr (), []) \<and>
   models_list (scenario_provider (Inl (Exn APIConnectionError ''Connection error.''))) () [] =
     (Inl (Exn APIConnectionError ''Connection error.''), []) \<and>
   get_available_models (scenario_provider (Inl (Exn APIConnectionError ''Connection error.''))) () [] =
     (Inr [], []) \<and>
   (\<exists>results.
      test_api_key (scenario_provider (Inl (Exn APIConnectionError ''Connection error.''))) ''sk-valid123'' [] =
        (Inr results,
         [''gpt-3.5-turbo'', ''gpt-3.5-turbo-16k'', ''gpt-4'', ''gpt-4-32k'', ''gpt-4-turbo'',
          ''gpt-4o'', ''gpt-4o-mini'']))"
proof -
  let ?P = "scenario_provider (Inl (Exn APIConnectionError ''Connection error.''))"
  have h1: "OpenAI ?P ''sk-valid123'' [] = (Inr (), [])" by (rule scenario_client)
  have h2: "models_list ?P () [] = (Inl (Exn APIConnectionError ''Connection error.''), [])"
    by (simp add: scenario_provider_def)
  from enumeration_failure_is_silent [OF h1 h2] obtain results w3 where
    g: "get_available_models ?P () [] = (Inr [], [])" and
    run: "test_api_key ?P ''sk-valid123'' [] = (Inr results, w3)" and
    keys: "map fst results =
      [''gpt-3.5-turbo'', ''gpt-3.5-turbo-16k'', ''gpt-4'', ''gpt-4-32k'', ''gpt-4-turbo'',
       ''gpt-4o'', ''gpt-4o-mini'']" and
    world: "w3 = fold (\<lambda>model w'. snd (chat_completions_create ?P () model w')) (map fst results) []"
    by (elim exE conjE) (rule that)
  from world keys have "w3 =
      [''gpt-3.5-turbo'', ''gpt-3.5-turbo-16k'', ''gpt-4'', ''gpt-4-32k'', ''gpt-4-turbo'',
       ''gpt-4o'', ''gpt-4o-mini'']"
    by (simp add: scenario_provider_def)
  with h1 h2 g run show ?thesis by simp
qed

section \<open>No exception leaves the orchestrator\<close>

text \<open>
  C7. For every credential and every provider, whatever its calls raise or return,
  \<^const>\<open>test_api_key\<close> returns a result: no exception leaves it.
\<close>

theorem test_api_key_always_returns:
  "\<exists>results w'. test_api_key P api_key w = (Inr results, w')"
proof (cases P api_key w rule: construction_cases)
  case (auth e w1)
  then show ?thesis by (simp add: handler_authentication)
next
  case (other e w1)
  then show ?thesis by (simp add: handler_general_error)
next
  case (probing client w1 available_models w2)
  then show ?thesis by (simp add: no_handler_when_client_built)
qed

theorem test_api_key_always_returns_witness:
  "(\<exists>results w'. test_api_key (scenario_provider (Inr [''gpt-4.1''])) ''badkey'' [] = (Inr results, w')) \<and>
   (\<exists>results w'. test_api_key (scenario_provider (Inl (Exn OtherException ''timed out''))) ''sk-valid123'' [] =
      (Inr results, w'))"
  using test_api_key_always_returns [of "scenario_provider (Inr [''gpt-4.1''])" "''badkey''" "[]"]
    test_api_key_always_returns [of "scenario_provider (Inl (Exn OtherException ''timed out''))" "''sk-valid123''" "[]"]
  by blast

section \<open>Summary classification\<close>

text \<open>
  C8. For every pair (successes, total) of natural numbers with \<open>total > 0\<close> and
  \<open>successes \<le> total\<close>: the summary is "fully valid" exactly when
  \<open>successes = total\<close>, "partially valid" exactly when \<open>0 < successes < total\<close> and
  "failed" exactly when \<open>successes = 0\<close>; the three conditions exclude each other and
  one of them holds.
\<close>

theorem final_summary_bands:
  assumes "0 < total_n" and "0 \<le> successes" and "successes \<le> total_n"
  shows "(final_summary successes total_n = Valid \<longleftrightarrow> successes = total_n) \<and>
         (final_summary successes total_n = PartiallyValid \<longleftrightarrow> 0 < successes \<and> successes < total_n) \<and>
         (final_summary successes total_n = KeyFailed \<longleftrightarrow> successes = 0) \<and>
         \<not> (successes = total_n \<and> 0 < successes \<and> successes < total_n) \<and>
         \<not> (successes = total_n \<and> successes = 0) \<and>
         \<not> (0 < successes \<and> successes < total_n \<and> successes = 0) \<and>
         (successes = total_n \<or> (0 < successes \<and> successes < total_n) \<or> successes = 0)"
  using assms by (auto simp: final_summary_def)

theorem final_summary_bands_witness:
  "final_summary 7 7 = Valid \<and> final_summary 3 7 = PartiallyValid \<and>
   final_summary 0 7 = KeyFailed"
  using final_summary_bands [of 7 7] final_summary_bands [of 7 3] final_summary_bands [of 7 0]
  by simp

section \<open>Flag and message agree\<close>

text \<open>
  C9. In every result that \<^const>\<open>test_api_key\<close> returns, the success flag of an entry
  is true exactly when its message is \<open>''Successfully connected''\<close>.
\<close>

theorem test_api_key_flag_iff_message:
  assumes "test_api_key P api_key w = (Inr results, w')"
  shows "\<forall>(model, success, message) \<in> set results. success \<longleftrightarrow> message = ''Successfully connected''"
proof (cases P api_key w rule: construction_cases)
  case (auth e w1)
  with assms show ?thesis by (auto simp: handler_authentication)
next
  case (other e w1)
  with assms show ?thesis by (auto simp: handler_general_error)
next
  case (probing client w1 available_models w2)
  let ?L = "probe_loop P client (sort (remdups (default_models @ available_models))) [] w2"
  from probing assms have r: "results = snd (fst ?L)" by (simp add: no_handler_when_client_built)
  have "\<forall>kv \<in> set (snd (fst ?L)). flag_matches_message kv"
    by (rule probe_loop_entries) (auto intro: test_single_model_flag)
  with r show ?thesis by (auto simp: flag_matches_message_def)
qed

theorem test_api_key_flag_iff_message_witness:
  "test_api_key (scenario_provider (Inr [''gpt-4.1'', ''whisper-1'', ''gpt-4o'', ''GPT-4'']))
     ''sk-valid123'' [] =
    (Inr [(''gpt-3.5-turbo'', True, ''Successfully connected''),
          (''gpt-3.5-turbo-16k'', True, ''Successfully connected''),
          (''gpt-4'', False, ''Permission denied - No access to this model''),
          (''gpt-4-32k'', True, ''Successfully connected''),
          (''gpt-4-turbo'', True, ''Successfully connected''),
          (''gpt-4.1'', True, ''Successfully connected''),
          (''gpt-4o'', True, ''Successfully connected''),
          (''gpt-4o-mini'', True, ''Successfully connected'')],
     [''gpt-3.5-turbo'', ''gpt-3.5-turbo-16k'', ''gpt-4'', ''gpt-4-32k'',
      ''gpt-4-turbo'', ''gpt-4.1'', ''gpt-4o'', ''gpt-4o-mini'']) \<and>
   list_all (\<lambda>(model, success, message). success \<longleftrightarrow> message = ''Successfully connected'')
      [(''gpt-3.5-turbo'', True, ''Successfully connected''),
       (''gpt-3.5-turbo-16k'', True, ''Successfully connected''),
       (''gpt-4'', False, ''Permission denied - No access to this model''),
       (''gpt-4-32k'', True, ''Successfully connected''),
       (''gpt-4-turbo'', True, ''Successfully connected''),
       (''gpt-4.1'', True, ''Successfully connected''),
       (''gpt-4o'', True, ''Successfully connected''),
       (''gpt-4o-mini'', True, ''Successfully connected'')]"
proof
  show "test_api_key (scenario_provider (Inr [''gpt-4.1'', ''whisper-1'', ''gpt-4o'', ''GPT-4'']))
     ''sk-valid123'' [] =
    (Inr [(''gpt-3.5-turbo'', True, ''Successfully connected''),
          (''gpt-3.5-turbo-16k'', True, ''Successfully connected''),
          (''gpt-4'', False, ''Permission denied - No access to this model''),
          (''gpt-4-32k'', True, ''Successfully connected''),
          (''gpt-4-turbo'', True, ''Successfully connected''),
          (''gpt-4.1'', True, ''Successfully connected''),
          (''gpt-4o'', True, ''Successfully connected''),
          (''gpt-4o-mini'', True, ''Successfully connected'')],
     [''gpt-3.5-turbo'', ''gpt-3.5-turbo-16k'', ''gpt-4'', ''gpt-4-32k'',
      ''gpt-4-turbo'', ''gpt-4.1'', ''gpt-4o'', ''gpt-4o-mini''])"
    by (rule scenario_run)
  show "list_all (\<lambda>(model, success, message). success \<longleftrightarrow> message = ''Successfully connected'')
      [(''gpt-3.5-turbo'', True, ''Successfully connected''),
       (''gpt-3.5-turbo-16k'', True, ''Successfully connected''),
       (''gpt-4'', False, ''Permission denied - No access to this model''),
       (''gpt-4-32k'', True, ''Successfully connected''),
       (''gpt-4-turbo'', True, ''Successfully connected''),
       (''gpt-4.1'', True, ''Successfully connected''),
       (''gpt-4o'', True, ''Successfully connected''),
       (''gpt-4o-mini'', True, ''Successfully connected'')]"
    unfolding list_all_iff by (rule test_api_key_flag_iff_message [OF scenario_run])
qed

section \<open>The default models are always reported\<close>

text \<open>
  C10. For every credential and every provider, the result that \<^const>\<open>test_api_key\<close>
  returns has all seven default models among its keys, and so is not empty.
\<close>

theorem test_api_key_covers_defaults:
  "\<exists>results w'. test_api_key P api_key w = (Inr results, w') \<and>
     set default_models \<subseteq> fst ` set results \<and>
     distinct default_models \<and> length default_models = 7 \<and> results \<noteq> []"
proof -
  have d: "distinct default_models \<and> length default_models = 7"
    by (simp add: default_models_def)
  have "\<exists>results w'. test_api_key P api_key w = (Inr results, w') \<and>
     set default_models \<subseteq> fst ` set results"
  proof (cases P api_key w rule: construction_cases)
    case (auth e w1)
    then show ?thesis by (simp add: handler_authentication image_image)
  next
    case (other e w1)
    then show ?thesis by (simp add: handler_general_error image_image)
  next
    case (probing client w1 available_models w2)
    from run_with_client [OF probing] obtain results w3 where
      run: "test_api_key P api_key w = (Inr results, w3)" and
      keys: "map fst results = sort (remdups (default_models @ available_models))"
      by blast
    from keys have "set (map fst results) = set default_models \<union> set available_models"
      by (simp only: models_to_test_props)
    then have "set default_models \<subseteq> fst ` set results" by auto
    with run show ?thesis by blast
  qed
  then obtain results w' where run: "test_api_key P api_key w = (Inr results, w')"
    and sub: "set default_models \<subseteq> fst ` set results" by blast
  have "''gpt-4'' \<in> set default_models" by (simp add: default_models_def)
  with sub have "results \<noteq> []" by auto
  with run sub d show ?thesis by blast
qed

theorem test_api_key_covers_defaults_witness:
  "\<exists>results w'. test_api_key (scenario_provider (Inr [''whisper-1''])) ''sk-valid123'' [] = (Inr results, w') \<and>
     set default_models \<subseteq> fst ` set results \<and>
     distinct default_models \<and> length default_models = 7 \<and> results \<noteq> []"
  by (rule test_api_key_covers_defaults)

end
